theory Spec2Isabelle
  imports Main "HOL-Library.Word"
begin

unbundle bit_operations_syntax

section \<open>Amlogic Meson IR receiver (drivers/media/rc/meson-ir.c)\<close>

text \<open>
  The driver is embedded statement by statement. A device instance (\<open>struct meson_ir\<close>
  together with the register window behind \<open>ir->reg\<close> and the \<open>rc_dev\<close> it points to) is a
  record. A driver function that takes the lock, and the timer callback, is the list of
  the statements it executes, each statement a function on that record; a statement that
  can wait (\<open>spin_lock\<close>) returns \<open>None\<close> while it cannot proceed. Running the list from
  front to back is the sequential execution of the function, which does not return
  (\<open>None\<close>) when a statement waits for ever; running two lists under a schedule is their
  execution on two CPUs. \<open>meson_ir_init\<close> and \<open>meson_ir_probe\<close> wait for nothing and are
  plain functions.

  The register window is modelled as storage: a read returns what was last written at
  that offset. Every MMIO access, lock operation, timer operation and call into rc-core
  is appended to the \<open>trace\<close> of the instance, in program order.
\<close>

subsection \<open>Constants and bit-field macros\<close>

text \<open>\<open>unsigned long\<close> (jiffies) is taken at the 64 bits of an arm64 kernel.\<close>

type_synonym u32 = "32 word"
type_synonym ulong = "64 word"

text \<open>Register offsets, lines 24-33.\<close>

definition IR_DEC_LDR_ACTIVE :: u32 where "IR_DEC_LDR_ACTIVE = 0x00"
definition IR_DEC_LDR_IDLE :: u32 where "IR_DEC_LDR_IDLE = 0x04"
definition IR_DEC_LDR_REPEAT :: u32 where "IR_DEC_LDR_REPEAT = 0x08"
definition IR_DEC_BIT_0 :: u32 where "IR_DEC_BIT_0 = 0x0c"
definition IR_DEC_REG0 :: u32 where "IR_DEC_REG0 = 0x10"
definition IR_DEC_FRAME :: u32 where "IR_DEC_FRAME = 0x14"
definition IR_DEC_STATUS :: u32 where "IR_DEC_STATUS = 0x18"
definition IR_DEC_REG1 :: u32 where "IR_DEC_REG1 = 0x1c"
definition IR_DEC_REG2 :: u32 where "IR_DEC_REG2 = 0x20"

text \<open>
  Modelled from the spec: the macros \<open>GENMASK\<close>, \<open>BIT\<close> and \<open>FIELD_PREP\<close> of linux/bits.h
  and linux/bitfield.h are not under src/. \<open>GENMASK h l\<close> has exactly the bits \<open>l..h\<close> set,
  \<open>BIT n\<close> bit \<open>n\<close>, and \<open>FIELD_PREP mask val\<close> moves \<open>val\<close> to the position of the lowest set
  bit of \<open>mask\<close> and cuts it to \<open>mask\<close>; the register table of the spec (section 6) gives
  the same bit positions for every field used below.
\<close>

definition GENMASK :: "nat \<Rightarrow> nat \<Rightarrow> u32" where
  "GENMASK h l = (NOT 0 - push_bit l 1 + 1) AND drop_bit (32 - 1 - h) (NOT 0)"

definition BIT :: "nat \<Rightarrow> u32" where
  "BIT n = push_bit n 1"

text \<open>
  \<open>__bf_shf(x)\<close> is \<open>__builtin_ffsll(x) - 1\<close>, the index of the lowest set bit of a mask
  that is not zero (a zero mask does not compile).
\<close>

fun lowest_bit_from :: "nat \<Rightarrow> nat \<Rightarrow> u32 \<Rightarrow> nat" where
  "lowest_bit_from 0 n x = n"
| "lowest_bit_from (Suc k) n x = (if bit x n then n else lowest_bit_from k (Suc n) x)"

definition bf_shf :: "u32 \<Rightarrow> nat" where
  "bf_shf x = lowest_bit_from 32 0 x"

definition FIELD_PREP :: "u32 \<Rightarrow> u32 \<Rightarrow> u32" where
  "FIELD_PREP msk val = push_bit (bf_shf msk) val AND msk"

definition REG0_RATE_MASK :: u32 where "REG0_RATE_MASK = GENMASK 11 0"

definition DECODE_MODE_NEC :: u32 where "DECODE_MODE_NEC = 0x0"
definition DECODE_MODE_RAW :: u32 where "DECODE_MODE_RAW = 0x2"

definition REG1_MODE_MASK :: u32 where "REG1_MODE_MASK = GENMASK 8 7"
definition REG1_MODE_SHIFT :: nat where "REG1_MODE_SHIFT = 7"

definition REG2_MODE_MASK :: u32 where "REG2_MODE_MASK = GENMASK 3 0"
definition REG2_MODE_SHIFT :: nat where "REG2_MODE_SHIFT = 0"

definition REG1_IRQSEL_MASK :: u32 where "REG1_IRQSEL_MASK = GENMASK 3 2"
definition REG1_IRQSEL_RISE_FALL :: u32 where "REG1_IRQSEL_RISE_FALL = 1"

definition REG1_RESET :: u32 where "REG1_RESET = BIT 0"
definition REG1_POL :: u32 where "REG1_POL = BIT 1"
definition REG1_ENABLE :: u32 where "REG1_ENABLE = BIT 15"

definition STATUS_IR_DEC_IN :: u32 where "STATUS_IR_DEC_IN = BIT 8"

definition MESON_TRATE :: u32 where "MESON_TRATE = 10"

text \<open>
  Modelled from the spec: \<open>MS_TO_US\<close> of media/rc-core.h is not under src/; it converts
  milliseconds to microseconds (the spec's scenario 2 has the default timeout 125000).
\<close>

definition MS_TO_US :: "u32 \<Rightarrow> u32" where
  "MS_TO_US msec = msec * 1000"

subsection \<open>Data model\<close>

text \<open>
  \<open>struct ir_raw_event\<close> as \<open>flush_timer\<close> fills it: zero-initialised, then \<open>timeout\<close>
  and \<open>duration\<close> assigned.
\<close>

record ir_raw_event =
  duration :: u32
  pulse :: bool
  timeout_ev :: bool

text \<open>The fields of \<open>struct rc_dev\<close> that \<open>meson_ir_probe\<close> assigns with values known here.\<close>

record rc_dev =
  device_name :: string
  input_phys :: string
  map_name :: string
  rx_resolution :: u32
  min_timeout :: u32
  timeout :: u32
  max_timeout :: u32
  driver_name :: string

text \<open>What an instance does to its environment, in program order.\<close>

datatype event =
    Readl u32 u32
  | Writel u32 u32
  | Spin_lock
  | Spin_unlock
  | Raw_event_store_edge bool
  | Raw_event_store ir_raw_event
  | Raw_event_handle
  | Mod_timer ulong
  | Del_timer_sync
  | Enable_irq
  | Enable_irq_wake
  | Disable_irq
  | Disable_irq_wake

text \<open>
  \<open>struct meson_ir\<close>, lines 71-77. \<open>reg\<close> is the register window (offset to value),
  \<open>lock\<close> tells whether the spinlock is held, \<open>flush_timer_expires\<close> is the state of the
  \<open>timer_list\<close>: \<open>None\<close> when the timer is not pending, \<open>Some e\<close> when it is armed for
  jiffy \<open>e\<close>.
\<close>

record meson_ir =
  reg :: "u32 \<Rightarrow> u32"
  rc :: rc_dev
  lock :: bool
  flush_timer_expires :: "ulong option"
  irq :: int
  trace :: "event list"

subsection \<open>Register interface\<close>

definition log :: "event \<Rightarrow> meson_ir \<Rightarrow> meson_ir" where
  "log e ir = ir\<lparr>trace := trace ir @ [e]\<rparr>"

definition readl :: "u32 \<Rightarrow> meson_ir \<Rightarrow> u32 \<times> meson_ir" where
  "readl off ir = (reg ir off, log (Readl off (reg ir off)) ir)"

definition writel :: "u32 \<Rightarrow> u32 \<Rightarrow> meson_ir \<Rightarrow> meson_ir" where
  "writel v off ir = log (Writel v off) (ir\<lparr>reg := (reg ir)(off := v)\<rparr>)"

definition meson_ir_get_reg :: "u32 \<Rightarrow> meson_ir \<Rightarrow> u32 \<times> meson_ir" where
  "meson_ir_get_reg r ir = readl r ir"

definition meson_ir_set_mask :: "u32 \<Rightarrow> u32 \<Rightarrow> u32 \<Rightarrow> meson_ir \<Rightarrow> meson_ir" where
  "meson_ir_set_mask r msk val ir =
     (let (data, ir) = meson_ir_get_reg r ir;
          data = data AND NOT msk;
          data = data OR (val AND msk)
      in writel data r ir)"

subsection \<open>Kernel services the driver calls\<close>

text \<open>
  Modelled from the spec: the spinlock, the timer and the rc-core entry points are kernel
  code that is not under src/. The spec (sections 4.3, 4.4, 5 and 6) describes them as a
  mutual-exclusion lock, a single-shot deadline that \<open>arm\<close> sets and \<open>cancel\<close> clears, and
  a decoder sink with \<open>store_edge\<close>, \<open>store_timeout\<close> and \<open>process_pending_events\<close>.
  \<open>spin_lock\<close> cannot proceed while the lock is held; \<open>spin_lock_irqsave\<close> takes the same
  lock (the masking of local interrupts is not modelled). \<open>mod_timer\<close> arms the timer for
  the given jiffy, pending or not; \<open>del_timer_sync\<close> leaves it not pending.
\<close>

type_synonym stmt = "meson_ir \<Rightarrow> meson_ir option"

definition exec :: "(meson_ir \<Rightarrow> meson_ir) \<Rightarrow> stmt" where
  "exec f ir = Some (f ir)"

definition spin_lock :: stmt where
  "spin_lock ir = (if lock ir then None else Some (log Spin_lock (ir\<lparr>lock := True\<rparr>)))"

definition spin_unlock :: "meson_ir \<Rightarrow> meson_ir" where
  "spin_unlock ir = log Spin_unlock (ir\<lparr>lock := False\<rparr>)"

definition spin_lock_irqsave :: stmt where
  "spin_lock_irqsave = spin_lock"

definition spin_unlock_irqrestore :: "meson_ir \<Rightarrow> meson_ir" where
  "spin_unlock_irqrestore = spin_unlock"

definition ir_raw_event_store_edge :: "bool \<Rightarrow> meson_ir \<Rightarrow> meson_ir" where
  "ir_raw_event_store_edge level ir = log (Raw_event_store_edge level) ir"

definition ir_raw_event_store :: "ir_raw_event \<Rightarrow> meson_ir \<Rightarrow> meson_ir" where
  "ir_raw_event_store ev ir = log (Raw_event_store ev) ir"

definition ir_raw_event_handle :: "meson_ir \<Rightarrow> meson_ir" where
  "ir_raw_event_handle ir = log Raw_event_handle ir"

definition mod_timer :: "ulong \<Rightarrow> meson_ir \<Rightarrow> meson_ir" where
  "mod_timer expires ir = log (Mod_timer expires) (ir\<lparr>flush_timer_expires := Some expires\<rparr>)"

definition del_timer_sync :: "meson_ir \<Rightarrow> meson_ir" where
  "del_timer_sync ir = log Del_timer_sync (ir\<lparr>flush_timer_expires := None\<rparr>)"

definition enable_irq :: "meson_ir \<Rightarrow> meson_ir" where
  "enable_irq ir = log Enable_irq ir"

definition enable_irq_wake :: "meson_ir \<Rightarrow> meson_ir" where
  "enable_irq_wake ir = log Enable_irq_wake ir"

definition disable_irq :: "meson_ir \<Rightarrow> meson_ir" where
  "disable_irq ir = log Disable_irq ir"

definition disable_irq_wake :: "meson_ir \<Rightarrow> meson_ir" where
  "disable_irq_wake ir = log Disable_irq_wake ir"

text \<open>A function body runs its statements in order; it does not return while one waits.\<close>

fun run :: "stmt list \<Rightarrow> meson_ir \<Rightarrow> meson_ir option" where
  "run [] ir = Some ir"
| "run (f # fs) ir = (case f ir of None \<Rightarrow> None | Some ir' \<Rightarrow> run fs ir')"

subsection \<open>Interrupt handler and timer callback\<close>

datatype irqreturn = IRQ_NONE | IRQ_HANDLED

text \<open>
  \<open>meson_ir_irq\<close>, lines 94-112. \<open>usecs_to_jiffies\<close> is a kernel function that is not under
  src/ and is taken as a parameter; \<open>jiffies\<close> is the value of the kernel's tick counter
  when line 105 reads it.
\<close>

definition meson_ir_irq_stmts :: "(u32 \<Rightarrow> ulong) \<Rightarrow> ulong \<Rightarrow> stmt list" where
  "meson_ir_irq_stmts usecs_to_jiffies jiffies =
     [spin_lock,
      (\<lambda>ir. let (status, ir) = readl IR_DEC_STATUS ir
            in Some (ir_raw_event_store_edge
                       (if status AND STATUS_IR_DEC_IN \<noteq> 0 then True else False) ir)),
      (\<lambda>ir. Some (mod_timer (jiffies + usecs_to_jiffies (timeout (rc ir))) ir)),
      exec ir_raw_event_handle,
      exec spin_unlock]"

definition meson_ir_irq :: "(u32 \<Rightarrow> ulong) \<Rightarrow> ulong \<Rightarrow> meson_ir \<Rightarrow> (irqreturn \<times> meson_ir) option" where
  "meson_ir_irq usecs_to_jiffies jiffies ir =
     map_option (Pair IRQ_HANDLED) (run (meson_ir_irq_stmts usecs_to_jiffies jiffies) ir)"

text \<open>\<open>flush_timer\<close>, lines 114-123.\<close>

definition flush_timer_stmts :: "stmt list" where
  "flush_timer_stmts =
     [(\<lambda>ir. let rawir = \<lparr>duration = 0, pulse = False, timeout_ev = False\<rparr>;
                rawir = rawir\<lparr>timeout_ev := True\<rparr>;
                rawir = rawir\<lparr>duration := timeout (rc ir)\<rparr>
            in Some (ir_raw_event_store rawir ir)),
      exec ir_raw_event_handle]"

definition flush_timer :: "meson_ir \<Rightarrow> meson_ir option" where
  "flush_timer ir = run flush_timer_stmts ir"

text \<open>
  The kernel's timer code runs the callback of a pending timer once its deadline is
  reached, after taking the timer off the pending list; a timer that is not pending
  does not fire.
\<close>

definition timer_fires :: "meson_ir \<Rightarrow> meson_ir option" where
  "timer_fires ir =
     (case flush_timer_expires ir of
        None \<Rightarrow> None
      | Some e \<Rightarrow> flush_timer (ir\<lparr>flush_timer_expires := None\<rparr>))"

subsection \<open>Configuration sequence\<close>

text \<open>
  The device-tree node of the platform device. \<open>compatible_meson6\<close> is the result of
  \<open>of_device_is_compatible(node, "amlogic,meson6-ir")\<close> (the spec's Legacy variant when
  true, Extended when false), \<open>pulse_inverted\<close> that of
  \<open>of_property_read_bool(node, "pulse-inverted")\<close>, \<open>rc_map_name\<close> that of
  \<open>of_get_property(node, "linux,rc-map-name", NULL)\<close>.
\<close>

record device_node =
  compatible_meson6 :: bool
  pulse_inverted :: bool
  rc_map_name :: "string option"

text \<open>\<open>meson_ir_init\<close>, lines 125-157. None of its statements waits.\<close>

definition meson_ir_init_body :: "device_node \<Rightarrow> (meson_ir \<Rightarrow> meson_ir) list" where
  "meson_ir_init_body node =
     [meson_ir_set_mask IR_DEC_REG1 REG1_RESET REG1_RESET,
      meson_ir_set_mask IR_DEC_REG1 REG1_RESET 0,
      (if compatible_meson6 node
       then meson_ir_set_mask IR_DEC_REG1 REG1_MODE_MASK
              (FIELD_PREP REG1_MODE_MASK DECODE_MODE_RAW)
       else meson_ir_set_mask IR_DEC_REG2 REG2_MODE_MASK
              (FIELD_PREP REG2_MODE_MASK DECODE_MODE_RAW)),
      meson_ir_set_mask IR_DEC_REG0 REG0_RATE_MASK (MESON_TRATE - 1),
      meson_ir_set_mask IR_DEC_REG1 REG1_IRQSEL_MASK
        (FIELD_PREP REG1_IRQSEL_MASK REG1_IRQSEL_RISE_FALL),
      meson_ir_set_mask IR_DEC_REG1 REG1_POL (if pulse_inverted node then REG1_POL else 0),
      meson_ir_set_mask IR_DEC_REG1 REG1_ENABLE REG1_ENABLE,
      (\<lambda>ir. snd (meson_ir_get_reg IR_DEC_STATUS ir)),
      (\<lambda>ir. snd (meson_ir_get_reg IR_DEC_FRAME ir))]"

definition meson_ir_init :: "device_node \<Rightarrow> meson_ir \<Rightarrow> meson_ir" where
  "meson_ir_init node ir = fold (\<lambda>f. f) (meson_ir_init_body node) ir"

subsection \<open>Attach\<close>

text \<open>
  The module-level variables of lines 64-69. They are not fields of \<open>struct meson_ir\<close>:
  there is one set of them for all instances of the driver.
\<close>

record backup =
  backup_IR_DEC_REG0 :: u32
  backup_IR_DEC_REG1 :: u32
  backup_IR_DEC_LDR_ACTIVE :: u32
  backup_IR_DEC_LDR_IDLE :: u32
  backup_IR_DEC_BIT_0 :: u32
  backup_IR_DEC_LDR_REPEAT :: u32

text \<open>
  What the kernel services called by \<open>meson_ir_probe\<close> return: \<open>devm_kzalloc\<close>,
  \<open>devm_ioremap_resource\<close> (an error pointer, or the register window with its present
  contents), \<open>platform_get_irq\<close>, \<open>devm_rc_allocate_device\<close>,
  \<open>devm_rc_register_device\<close>, \<open>devm_request_irq\<close> and
  \<open>devm_pinctrl_get_select_default\<close> (\<open>Some e\<close> for an error pointer).
\<close>

record probe_env =
  kzalloc_ok :: bool
  ioremap_resource :: "int + (u32 \<Rightarrow> u32)"
  platform_irq :: int
  rc_allocate_ok :: bool
  rc_register_ret :: int
  request_irq_ret :: int
  pinctrl_err :: "int option"

definition ENOMEM :: int where "ENOMEM = 12"
definition DRIVER_NAME :: string where "DRIVER_NAME = ''meson-ir''"

text \<open>\<open>RC_MAP_EMPTY\<close> of media/rc-map.h, not under src/.\<close>

definition RC_MAP_EMPTY :: string where "RC_MAP_EMPTY = ''rc-empty''"

text \<open>Lines 229-234: the six registers are read into the module-level variables.\<close>

definition make_register_backup :: "meson_ir \<Rightarrow> backup \<times> meson_ir" where
  "make_register_backup ir =
     (let (reg0, ir) = meson_ir_get_reg IR_DEC_REG0 ir;
          (reg1, ir) = meson_ir_get_reg IR_DEC_REG1 ir;
          (ldr_active, ir) = meson_ir_get_reg IR_DEC_LDR_ACTIVE ir;
          (ldr_idle, ir) = meson_ir_get_reg IR_DEC_LDR_IDLE ir;
          (bit_0, ir) = meson_ir_get_reg IR_DEC_BIT_0 ir;
          (ldr_repeat, ir) = meson_ir_get_reg IR_DEC_LDR_REPEAT ir
      in (\<lparr>backup_IR_DEC_REG0 = reg0, backup_IR_DEC_REG1 = reg1,
           backup_IR_DEC_LDR_ACTIVE = ldr_active, backup_IR_DEC_LDR_IDLE = ldr_idle,
           backup_IR_DEC_BIT_0 = bit_0, backup_IR_DEC_LDR_REPEAT = ldr_repeat\<rparr>, ir))"

text \<open>
  \<open>meson_ir_probe\<close>, lines 159-239: the return value, the module-level variables
  afterwards, and the instance when the attach succeeded (every resource is
  device-managed, so a failed attach leaves none). \<open>meson_ir_alloc\<close> is the instance as
  lines 170-203 and 212 leave it: zeroed by \<open>devm_kzalloc\<close>, the register window mapped,
  the fields of \<open>rc_dev\<close> assigned, the lock initialised and the timer set up.
  \<open>input_id.bustype\<close> and \<open>allowed_protocols\<close> are assigned constants of headers that
  are not under src/; they are left out of \<open>rc_dev\<close>.
\<close>

definition meson_ir_alloc :: "probe_env \<Rightarrow> device_node \<Rightarrow> (u32 \<Rightarrow> u32) \<Rightarrow> meson_ir" where
  "meson_ir_alloc env node regs =
     \<lparr>reg = regs,
      rc = \<lparr>device_name = DRIVER_NAME,
            input_phys = DRIVER_NAME @ ''/input0'',
            map_name = (case rc_map_name node of Some name \<Rightarrow> name | None \<Rightarrow> RC_MAP_EMPTY),
            rx_resolution = MESON_TRATE,
            min_timeout = 1,
            timeout = MS_TO_US 125,
            max_timeout = MS_TO_US 1250,
            driver_name = DRIVER_NAME\<rparr>,
      lock = False,
      flush_timer_expires = None,
      irq = platform_irq env,
      trace = []\<rparr>"

definition meson_ir_probe ::
  "probe_env \<Rightarrow> device_node \<Rightarrow> backup \<Rightarrow> int \<times> backup \<times> meson_ir option" where
  "meson_ir_probe env node globals =
     (if \<not> kzalloc_ok env then (- ENOMEM, globals, None)
      else case ioremap_resource env of
        Inl err \<Rightarrow> (err, globals, None)
      | Inr regs \<Rightarrow>
          if platform_irq env < 0 then (platform_irq env, globals, None)
          else if \<not> rc_allocate_ok env then (- ENOMEM, globals, None)
          else
            let ir = meson_ir_alloc env node regs
            in if rc_register_ret env \<noteq> 0 then (rc_register_ret env, globals, None)
               else if request_irq_ret env \<noteq> 0 then (request_irq_ret env, globals, None)
               else (case pinctrl_err env of
                       Some e \<Rightarrow> (- 1, globals, None)
                     | None \<Rightarrow>
                         let ir = meson_ir_init node ir;
                             (globals, ir) = make_register_backup ir
                         in (0, globals, Some ir)))"

subsection \<open>Detach, shutdown and resume\<close>

text \<open>\<open>meson_ir_remove\<close>, lines 241-254.\<close>

definition meson_ir_remove_stmts :: "stmt list" where
  "meson_ir_remove_stmts =
     [spin_lock_irqsave,
      exec (meson_ir_set_mask IR_DEC_REG1 REG1_ENABLE 0),
      exec spin_unlock_irqrestore,
      exec del_timer_sync]"

definition meson_ir_remove :: "meson_ir \<Rightarrow> (int \<times> meson_ir) option" where
  "meson_ir_remove ir = map_option (Pair 0) (run meson_ir_remove_stmts ir)"

text \<open>\<open>meson_ir_shutdown\<close>, lines 256-280.\<close>

definition meson_ir_shutdown_stmts :: "device_node \<Rightarrow> stmt list" where
  "meson_ir_shutdown_stmts node =
     [spin_lock_irqsave,
      (if compatible_meson6 node
       then exec (meson_ir_set_mask IR_DEC_REG1 REG1_MODE_MASK
                    (push_bit REG1_MODE_SHIFT DECODE_MODE_NEC))
       else exec (meson_ir_set_mask IR_DEC_REG2 REG2_MODE_MASK
                    (push_bit REG2_MODE_SHIFT DECODE_MODE_NEC))),
      exec (meson_ir_set_mask IR_DEC_REG0 REG0_RATE_MASK 0x13),
      exec spin_unlock_irqrestore]"

definition meson_ir_shutdown :: "device_node \<Rightarrow> meson_ir \<Rightarrow> meson_ir option" where
  "meson_ir_shutdown node ir = run (meson_ir_shutdown_stmts node) ir"

text \<open>
  \<open>meson_ir_resume\<close>, lines 283-310. \<open>amlogic_modify\<close> tells whether the kernel is built
  with \<open>CONFIG_AMLOGIC_MODIFY\<close>. The function reads the module-level variables and does
  not assign them.
\<close>

definition meson_ir_resume_stmts :: "bool \<Rightarrow> device_node \<Rightarrow> backup \<Rightarrow> stmt list" where
  "meson_ir_resume_stmts amlogic_modify node globals =
     [spin_lock_irqsave,
      exec (meson_ir_set_mask IR_DEC_REG0 (backup_IR_DEC_REG0 globals)
              (backup_IR_DEC_REG0 globals)),
      exec (meson_ir_set_mask IR_DEC_REG1 (backup_IR_DEC_REG1 globals)
              (backup_IR_DEC_REG1 globals)),
      exec (meson_ir_set_mask IR_DEC_LDR_ACTIVE (backup_IR_DEC_LDR_ACTIVE globals)
              (backup_IR_DEC_LDR_ACTIVE globals)),
      exec (meson_ir_set_mask IR_DEC_LDR_IDLE (backup_IR_DEC_LDR_IDLE globals)
              (backup_IR_DEC_LDR_IDLE globals)),
      exec (meson_ir_set_mask IR_DEC_BIT_0 (backup_IR_DEC_BIT_0 globals)
              (backup_IR_DEC_BIT_0 globals)),
      exec (meson_ir_set_mask IR_DEC_LDR_REPEAT (backup_IR_DEC_LDR_REPEAT globals)
              (backup_IR_DEC_LDR_REPEAT globals)),
      exec (meson_ir_init node),
      exec (if amlogic_modify then enable_irq else enable_irq_wake),
      exec spin_unlock_irqrestore]"

definition meson_ir_resume ::
  "bool \<Rightarrow> device_node \<Rightarrow> backup \<Rightarrow> meson_ir \<Rightarrow> (int \<times> meson_ir) option" where
  "meson_ir_resume amlogic_modify node globals ir =
     map_option (Pair 0) (run (meson_ir_resume_stmts amlogic_modify node globals) ir)"

text \<open>\<open>meson_ir_suspend\<close>, lines 312-329.\<close>

definition meson_ir_suspend_stmts :: "bool \<Rightarrow> stmt list" where
  "meson_ir_suspend_stmts amlogic_modify =
     (if \<not> amlogic_modify
      then [spin_lock_irqsave, exec disable_irq_wake, exec spin_unlock_irqrestore]
      else [exec disable_irq])"

definition meson_ir_suspend :: "bool \<Rightarrow> meson_ir \<Rightarrow> (int \<times> meson_ir) option" where
  "meson_ir_suspend amlogic_modify ir =
     map_option (Pair 0) (run (meson_ir_suspend_stmts amlogic_modify) ir)"

subsection \<open>Two CPUs\<close>

text \<open>
  Two function bodies running on two CPUs against the same instance: the schedule names,
  statement by statement, the CPU that executes its next statement. The result is
  \<open>None\<close> when the schedule picks a CPU whose next statement waits or that has finished,
  or when it ends before both bodies have.
\<close>

datatype cpu = CPU0 | CPU1

fun interleave :: "cpu list \<Rightarrow> stmt list \<Rightarrow> stmt list \<Rightarrow> meson_ir \<Rightarrow> meson_ir option" where
  "interleave [] [] [] ir = Some ir"
| "interleave (CPU0 # sched) (f # p) q ir =
     (case f ir of None \<Rightarrow> None | Some ir' \<Rightarrow> interleave sched p q ir')"
| "interleave (CPU1 # sched) p (f # q) ir =
     (case f ir of None \<Rightarrow> None | Some ir' \<Rightarrow> interleave sched p q ir')"
| "interleave sched p q ir = None"

subsection \<open>Reading a trace\<close>

text \<open>
  Whether every call into the decoder sink in a trace is made while the context that
  produced the trace holds the lock; \<open>held\<close> tells whether it does at the start.
\<close>

fun sink_calls_locked :: "bool \<Rightarrow> event list \<Rightarrow> bool" where
  "sink_calls_locked held [] = True"
| "sink_calls_locked held (Spin_lock # es) = sink_calls_locked True es"
| "sink_calls_locked held (Spin_unlock # es) = sink_calls_locked False es"
| "sink_calls_locked held (Raw_event_store_edge level # es) =
     (held \<and> sink_calls_locked held es)"
| "sink_calls_locked held (Raw_event_store ev # es) = (held \<and> sink_calls_locked held es)"
| "sink_calls_locked held (Raw_event_handle # es) = (held \<and> sink_calls_locked held es)"
| "sink_calls_locked held (e # es) = sink_calls_locked held es"

text \<open>The variant's mode field, the sample-rate, irq-select and polarity fields.\<close>

definition mode_field :: "device_node \<Rightarrow> (u32 \<Rightarrow> u32) \<Rightarrow> u32" where
  "mode_field node regs =
     (if compatible_meson6 node then regs IR_DEC_REG1 AND REG1_MODE_MASK
      else regs IR_DEC_REG2 AND REG2_MODE_MASK)"

definition rate_field :: "(u32 \<Rightarrow> u32) \<Rightarrow> u32" where
  "rate_field regs = regs IR_DEC_REG0 AND REG0_RATE_MASK"

definition irqsel_field :: "(u32 \<Rightarrow> u32) \<Rightarrow> u32" where
  "irqsel_field regs = regs IR_DEC_REG1 AND REG1_IRQSEL_MASK"

definition pol_field :: "(u32 \<Rightarrow> u32) \<Rightarrow> u32" where
  "pol_field regs = regs IR_DEC_REG1 AND REG1_POL"

text \<open>
  The bits of register \<open>r\<close> that belong to the variant's mode field or to the
  sample-rate field.
\<close>

definition shutdown_mask :: "device_node \<Rightarrow> u32 \<Rightarrow> u32" where
  "shutdown_mask node r =
     (if r = IR_DEC_REG0 then REG0_RATE_MASK
      else if compatible_meson6 node \<and> r = IR_DEC_REG1 then REG1_MODE_MASK
      else if \<not> compatible_meson6 node \<and> r = IR_DEC_REG2 then REG2_MODE_MASK
      else 0)"

subsection \<open>A concrete platform\<close>

text \<open>
  A receiver of the Extended variant whose registers read zero before the attach, and a
  kernel in which every service called by the attach succeeds.
\<close>

definition example_node :: device_node where
  "example_node = \<lparr>compatible_meson6 = False, pulse_inverted = False, rc_map_name = None\<rparr>"

definition example_env :: probe_env where
  "example_env = \<lparr>kzalloc_ok = True, ioremap_resource = Inr (\<lambda>r. 0), platform_irq = 42,
     rc_allocate_ok = True, rc_register_ret = 0, request_irq_ret = 0, pinctrl_err = None\<rparr>"

definition example_globals :: backup where
  "example_globals = \<lparr>backup_IR_DEC_REG0 = 0, backup_IR_DEC_REG1 = 0,
     backup_IR_DEC_LDR_ACTIVE = 0, backup_IR_DEC_LDR_IDLE = 0, backup_IR_DEC_BIT_0 = 0,
     backup_IR_DEC_LDR_REPEAT = 0\<rparr>"

text \<open>A second receiver, whose LDR_ACTIVE register reads 5 before the attach.\<close>

definition example_env_B :: probe_env where
  "example_env_B = example_env\<lparr>ioremap_resource := Inr ((\<lambda>r. 0)(IR_DEC_LDR_ACTIVE := 5))\<rparr>"

text \<open>The first receiver after its attach, and the module-level variables then.\<close>

definition instance_A :: meson_ir where
  "instance_A =
     snd (make_register_backup (meson_ir_init example_node (meson_ir_alloc example_env example_node (\<lambda>r. 0))))"

definition snapshot_A :: backup where
  "snapshot_A =
     fst (make_register_backup (meson_ir_init example_node (meson_ir_alloc example_env example_node (\<lambda>r. 0))))"

text \<open>The second receiver after its attach, and the module-level variables then.\<close>

definition instance_B :: meson_ir where
  "instance_B =
     snd (make_register_backup (meson_ir_init example_node
            (meson_ir_alloc example_env_B example_node ((\<lambda>r. 0)(IR_DEC_LDR_ACTIVE := 5)))))"

definition snapshot_B :: backup where
  "snapshot_B =
     fst (make_register_backup (meson_ir_init example_node
            (meson_ir_alloc example_env_B example_node ((\<lambda>r. 0)(IR_DEC_LDR_ACTIVE := 5)))))"

text \<open>What a register holds once \<open>meson_ir_resume\<close> has returned.\<close>

definition resumed_reg :: "bool \<Rightarrow> device_node \<Rightarrow> backup \<Rightarrow> meson_ir \<Rightarrow> u32 \<Rightarrow> u32 option" where
  "resumed_reg amlogic_modify node globals ir r =
     map_option (\<lambda>(ret, ir'). reg ir' r) (meson_ir_resume amlogic_modify node globals ir)"

text \<open>The first receiver, attached and idle, with an empty trace.\<close>

definition example_ir :: meson_ir where
  "example_ir = instance_A\<lparr>trace := []\<rparr>"

text \<open>
  The first receiver as a resume finds it after its registers were changed: rate field
  0x13, polarity bit set, enable and mode cleared, LDR_ACTIVE 0x20.
\<close>

definition example_suspended :: meson_ir where
  "example_suspended =
     instance_A\<lparr>reg := (\<lambda>r. 0)(IR_DEC_REG0 := 0x13, IR_DEC_REG1 := 2, IR_DEC_LDR_ACTIVE := 0x20),
                trace := []\<rparr>"

text \<open>\<open>usecs_to_jiffies\<close> of a kernel with 100 ticks a second: rounded up to whole ticks.\<close>

definition usecs_to_jiffies_hz100 :: "u32 \<Rightarrow> ulong" where
  "usecs_to_jiffies_hz100 u = (ucast u + 9999) div 10000"

section \<open>Properties\<close>

subsection \<open>Values of the constants\<close>

lemma mask_values:
  "REG0_RATE_MASK = 0xFFF" "REG1_MODE_MASK = 0x180" "REG2_MODE_MASK = 0xF"
  "REG1_IRQSEL_MASK = 0xC" "REG1_RESET = 1" "REG1_POL = 2" "REG1_ENABLE = 0x8000"
  "STATUS_IR_DEC_IN = 0x100"
  by (simp_all add: REG0_RATE_MASK_def REG1_MODE_MASK_def REG2_MODE_MASK_def
      REG1_IRQSEL_MASK_def REG1_RESET_def REG1_POL_def REG1_ENABLE_def STATUS_IR_DEC_IN_def
      GENMASK_def BIT_def mask_numeral)

lemma field_values:
  "FIELD_PREP REG1_MODE_MASK DECODE_MODE_RAW = 0x100"
  "FIELD_PREP REG2_MODE_MASK DECODE_MODE_RAW = 2"
  "FIELD_PREP REG1_IRQSEL_MASK REG1_IRQSEL_RISE_FALL = 4"
  "MESON_TRATE - 1 = 9"
  "push_bit REG1_MODE_SHIFT DECODE_MODE_NEC = 0"
  "push_bit REG2_MODE_SHIFT DECODE_MODE_NEC = 0"
  "MS_TO_US 125 = 125000" "MS_TO_US 1250 = 1250000"
  by (simp_all add: mask_values FIELD_PREP_def bf_shf_def numeral_eq_Suc DECODE_MODE_RAW_def
      REG1_IRQSEL_RISE_FALL_def MESON_TRATE_def DECODE_MODE_NEC_def MS_TO_US_def)

lemma field_values_num:
  "FIELD_PREP 0x180 DECODE_MODE_RAW = 0x100"
  "FIELD_PREP 0xF DECODE_MODE_RAW = 2"
  "FIELD_PREP 0xC REG1_IRQSEL_RISE_FALL = 4"
  using field_values(1-3) by (simp_all add: mask_values)

lemmas offsets = IR_DEC_LDR_ACTIVE_def IR_DEC_LDR_IDLE_def IR_DEC_LDR_REPEAT_def
  IR_DEC_BIT_0_def IR_DEC_REG0_def IR_DEC_FRAME_def IR_DEC_STATUS_def IR_DEC_REG1_def
  IR_DEC_REG2_def

subsection \<open>Running statements\<close>

lemma meson_ir_get_reg_eq:
  "meson_ir_get_reg r ir = (reg ir r, ir\<lparr>trace := trace ir @ [Readl r (reg ir r)]\<rparr>)"
  by (simp add: meson_ir_get_reg_def readl_def log_def)

subsection \<open>The register interface: masked update\<close>

lemma meson_ir_set_mask_eq:
  "meson_ir_set_mask r msk val ir =
     ir\<lparr>reg := (reg ir)(r := (reg ir r AND NOT msk) OR (val AND msk)),
        trace := trace ir @ [Readl r (reg ir r),
                             Writel ((reg ir r AND NOT msk) OR (val AND msk)) r]\<rparr>"
  by (simp add: meson_ir_set_mask_def meson_ir_get_reg_def readl_def writel_def log_def Let_def)

text \<open>
  C8. For every register, mask, value and prior register state, the masked update leaves
  the register holding \<open>(old & ~mask) | (value & mask)\<close>: the bits outside the mask keep
  their value, the bits of the value outside the mask are ignored, and no other
  register changes.
\<close>

lemma and_not_or_outside: "((x AND NOT m) OR (v AND m)) AND NOT m = x AND NOT (m :: u32)"
  by (rule bit_word_eqI) (auto simp: bit_simps)

lemma and_not_or_inside: "((x AND NOT m) OR (v AND m)) AND m = v AND (m :: u32)"
  by (rule bit_word_eqI) (auto simp: bit_simps)

theorem meson_ir_set_mask_update:
  "reg (meson_ir_set_mask r msk val ir) = (reg ir)(r := (reg ir r AND NOT msk) OR (val AND msk))
   \<and> reg (meson_ir_set_mask r msk val ir) r AND NOT msk = reg ir r AND NOT msk
   \<and> reg (meson_ir_set_mask r msk val ir) r AND msk = val AND msk
   \<and> reg (meson_ir_set_mask r msk val ir) = reg (meson_ir_set_mask r msk (val AND msk) ir)"
  by (simp add: meson_ir_set_mask_eq and_not_or_outside and_not_or_inside)

subsection \<open>Bit fields\<close>

lemma upd_disjoint:
  "m AND k = 0 \<Longrightarrow> ((x AND NOT m) OR (v AND m)) AND k = x AND (k :: u32)"
proof (rule bit_word_eqI)
  fix n assume a: "m AND k = 0" and "n < LENGTH(32)"
  have "\<not> (bit m n \<and> bit k n)"
    using a by (metis bit_and_iff bit_0_eq bot_apply bot_bool_def)
  then show "bit (((x AND NOT m) OR (v AND m)) AND k) n = bit (x AND k) n"
    using \<open>n < LENGTH(32)\<close> by (auto simp: bit_simps)
qed

lemma and_not_self: "(x AND NOT m) AND m = (0 :: u32)"
  by (rule bit_word_eqI) (auto simp: bit_simps)

lemma disjoint_fields:
  "REG1_RESET AND REG1_MODE_MASK = 0" "REG1_RESET AND REG1_IRQSEL_MASK = 0"
  "REG1_RESET AND REG1_POL = 0" "REG1_RESET AND REG1_ENABLE = 0"
  "REG1_MODE_MASK AND REG1_RESET = 0" "REG1_MODE_MASK AND REG1_IRQSEL_MASK = 0"
  "REG1_MODE_MASK AND REG1_POL = 0" "REG1_MODE_MASK AND REG1_ENABLE = 0"
  "REG1_IRQSEL_MASK AND REG1_RESET = 0" "REG1_IRQSEL_MASK AND REG1_MODE_MASK = 0"
  "REG1_IRQSEL_MASK AND REG1_POL = 0" "REG1_IRQSEL_MASK AND REG1_ENABLE = 0"
  "REG1_POL AND REG1_RESET = 0" "REG1_POL AND REG1_MODE_MASK = 0"
  "REG1_POL AND REG1_IRQSEL_MASK = 0" "REG1_POL AND REG1_ENABLE = 0"
  "REG1_ENABLE AND REG1_RESET = 0" "REG1_ENABLE AND REG1_MODE_MASK = 0"
  "REG1_ENABLE AND REG1_IRQSEL_MASK = 0" "REG1_ENABLE AND REG1_POL = 0"
  by (simp_all add: mask_values)

lemma init_REG0:
  "reg (meson_ir_init node ir) IR_DEC_REG0 =
     (reg ir IR_DEC_REG0 AND NOT REG0_RATE_MASK) OR ((MESON_TRATE - 1) AND REG0_RATE_MASK)"
  by (simp add: meson_ir_init_def meson_ir_init_body_def meson_ir_set_mask_eq
      meson_ir_get_reg_eq offsets)

lemma init_REG2:
  "reg (meson_ir_init node ir) IR_DEC_REG2 =
     (if compatible_meson6 node then reg ir IR_DEC_REG2
      else (reg ir IR_DEC_REG2 AND NOT REG2_MODE_MASK)
             OR (FIELD_PREP REG2_MODE_MASK DECODE_MODE_RAW AND REG2_MODE_MASK))"
  by (simp add: meson_ir_init_def meson_ir_init_body_def meson_ir_set_mask_eq
      meson_ir_get_reg_eq offsets)

lemma init_REG1:
  "reg (meson_ir_init node ir) IR_DEC_REG1 =
     (let a = reg ir IR_DEC_REG1;
          b = (a AND NOT REG1_RESET) OR (REG1_RESET AND REG1_RESET);
          c = (b AND NOT REG1_RESET) OR (0 AND REG1_RESET);
          d = (if compatible_meson6 node
               then (c AND NOT REG1_MODE_MASK)
                      OR (FIELD_PREP REG1_MODE_MASK DECODE_MODE_RAW AND REG1_MODE_MASK)
               else c);
          e = (d AND NOT REG1_IRQSEL_MASK)
                OR (FIELD_PREP REG1_IRQSEL_MASK REG1_IRQSEL_RISE_FALL AND REG1_IRQSEL_MASK);
          f = (e AND NOT REG1_POL) OR ((if pulse_inverted node then REG1_POL else 0) AND REG1_POL)
      in (f AND NOT REG1_ENABLE) OR (REG1_ENABLE AND REG1_ENABLE))"
  by (simp add: meson_ir_init_def meson_ir_init_body_def meson_ir_set_mask_eq
      meson_ir_get_reg_eq offsets Let_def del: and.idem)

lemma init_other:
  "r \<noteq> IR_DEC_REG0 \<Longrightarrow> r \<noteq> IR_DEC_REG1 \<Longrightarrow> r \<noteq> IR_DEC_REG2 \<Longrightarrow>
   reg (meson_ir_init node ir) r = reg ir r"
  by (simp add: meson_ir_init_def meson_ir_init_body_def meson_ir_set_mask_eq
      meson_ir_get_reg_eq)

lemmas upd_simps = Let_def and_not_or_inside upd_disjoint disjoint_fields

lemma init_rate_field: "rate_field (reg (meson_ir_init node ir)) = 9"
  by (simp add: rate_field_def init_REG0 and_not_or_inside) (simp_all add: field_values mask_values)

lemma init_mode_field:
  "mode_field node (reg (meson_ir_init node ir)) = (if compatible_meson6 node then 0x100 else 2)"
  by (simp add: mode_field_def init_REG1 init_REG2 upd_simps field_values del: and.idem)
    (simp_all add: mask_values)

lemma init_irqsel_field: "irqsel_field (reg (meson_ir_init node ir)) = 4"
  by (simp add: irqsel_field_def init_REG1 upd_simps field_values del: and.idem)
    (simp_all add: mask_values)

lemma init_pol_field:
  "pol_field (reg (meson_ir_init node ir)) = (if pulse_inverted node then 2 else 0)"
  by (simp add: pol_field_def init_REG1 upd_simps del: and.idem)
    (simp_all add: mask_values)

lemma init_enable: "reg (meson_ir_init node ir) IR_DEC_REG1 AND REG1_ENABLE = REG1_ENABLE"
  by (simp add: init_REG1 upd_simps del: and.idem) simp_all

lemma init_reset: "reg (meson_ir_init node ir) IR_DEC_REG1 AND REG1_RESET = 0"
  by (simp add: init_REG1 upd_simps and_not_self del: and.idem)

lemma init_trace:
  "trace (meson_ir_init node ir) = trace ir @
     (let a = reg ir IR_DEC_REG1;
          b = (a AND NOT 1) OR 1;
          c = b AND NOT 1;
          m = reg ir IR_DEC_REG2;
          d = (if compatible_meson6 node then (c AND NOT 0x180) OR 0x100 else c);
          z = reg ir IR_DEC_REG0;
          e = (d AND NOT 0xC) OR 4;
          f = (e AND NOT 2) OR (if pulse_inverted node then 2 else 0);
          g = (f AND NOT 0x8000) OR 0x8000
      in [Readl IR_DEC_REG1 a, Writel b IR_DEC_REG1,
          Readl IR_DEC_REG1 b, Writel c IR_DEC_REG1] @
         (if compatible_meson6 node
          then [Readl IR_DEC_REG1 c, Writel d IR_DEC_REG1]
          else [Readl IR_DEC_REG2 m, Writel ((m AND NOT 0xF) OR 2) IR_DEC_REG2]) @
         [Readl IR_DEC_REG0 z, Writel ((z AND NOT 0xFFF) OR 9) IR_DEC_REG0,
          Readl IR_DEC_REG1 d, Writel e IR_DEC_REG1,
          Readl IR_DEC_REG1 e, Writel f IR_DEC_REG1,
          Readl IR_DEC_REG1 f, Writel g IR_DEC_REG1,
          Readl IR_DEC_STATUS (reg ir IR_DEC_STATUS),
          Readl IR_DEC_FRAME (reg ir IR_DEC_FRAME)])"
  by (simp add: meson_ir_init_def meson_ir_init_body_def meson_ir_set_mask_eq
      meson_ir_get_reg_eq mask_values field_values field_values_num offsets Let_def)

lemma init_frame:
  "rc (meson_ir_init node ir) = rc ir" "lock (meson_ir_init node ir) = lock ir"
  "flush_timer_expires (meson_ir_init node ir) = flush_timer_expires ir"
  "irq (meson_ir_init node ir) = irq ir"
  by (simp_all add: meson_ir_init_def meson_ir_init_body_def meson_ir_set_mask_eq
      meson_ir_get_reg_eq)

lemma bit_of_masked:
  "x AND m = v \<Longrightarrow> bit (m :: u32) n \<Longrightarrow> bit x n = bit v n"
  by (metis bit_and_iff)

lemma init_bits:
  "\<not> bit (reg (meson_ir_init node ir) IR_DEC_REG1) 0"
  "bit (reg (meson_ir_init node ir) IR_DEC_REG1) 15"
  "bit (reg (meson_ir_init node ir) IR_DEC_REG1) 2"
  "\<not> bit (reg (meson_ir_init node ir) IR_DEC_REG1) 3"
  "bit (reg (meson_ir_init node ir) IR_DEC_REG1) 1 = pulse_inverted node"
  using bit_of_masked [OF init_reset, of 0 node ir]
    bit_of_masked [OF init_enable, of 15 node ir]
    bit_of_masked [OF init_irqsel_field [unfolded irqsel_field_def], of 2 node ir]
    bit_of_masked [OF init_irqsel_field [unfolded irqsel_field_def], of 3 node ir]
    bit_of_masked [OF init_pol_field [unfolded pol_field_def], of 1 node ir]
  by (simp_all add: mask_values)

lemma make_register_backup_eq:
  "make_register_backup ir =
     (\<lparr>backup_IR_DEC_REG0 = reg ir IR_DEC_REG0, backup_IR_DEC_REG1 = reg ir IR_DEC_REG1,
       backup_IR_DEC_LDR_ACTIVE = reg ir IR_DEC_LDR_ACTIVE,
       backup_IR_DEC_LDR_IDLE = reg ir IR_DEC_LDR_IDLE,
       backup_IR_DEC_BIT_0 = reg ir IR_DEC_BIT_0,
       backup_IR_DEC_LDR_REPEAT = reg ir IR_DEC_LDR_REPEAT\<rparr>,
      ir\<lparr>trace := trace ir @
        [Readl IR_DEC_REG0 (reg ir IR_DEC_REG0), Readl IR_DEC_REG1 (reg ir IR_DEC_REG1),
         Readl IR_DEC_LDR_ACTIVE (reg ir IR_DEC_LDR_ACTIVE),
         Readl IR_DEC_LDR_IDLE (reg ir IR_DEC_LDR_IDLE),
         Readl IR_DEC_BIT_0 (reg ir IR_DEC_BIT_0),
         Readl IR_DEC_LDR_REPEAT (reg ir IR_DEC_LDR_REPEAT)]\<rparr>)"
  by (simp add: make_register_backup_def meson_ir_get_reg_eq)

lemma probe_success:
  assumes "meson_ir_probe env node globals = (ret, globals', Some ir)"
  shows "\<exists>regs. ioremap_resource env = Inr regs
           \<and> ret = 0
           \<and> (globals', ir) = make_register_backup (meson_ir_init node (meson_ir_alloc env node regs))"
  using assms
  by (auto simp: meson_ir_probe_def Let_def split: if_splits sum.splits option.splits prod.splits)


subsection \<open>The concrete platform attached\<close>

lemma probe_example:
  "meson_ir_probe example_env example_node example_globals = (0, snapshot_A, Some instance_A)"
  by (simp add: meson_ir_probe_def example_env_def example_node_def snapshot_A_def
      instance_A_def Let_def split_def)

lemma probe_example_B:
  "meson_ir_probe example_env_B example_node snapshot_A = (0, snapshot_B, Some instance_B)"
  by (simp add: meson_ir_probe_def example_env_B_def example_env_def example_node_def
      snapshot_B_def instance_B_def Let_def split_def)

lemma example_node_variant:
  "\<not> compatible_meson6 example_node" "\<not> pulse_inverted example_node"
  by (simp_all add: example_node_def)

lemma instance_A_regs:
  "reg instance_A IR_DEC_REG0 = 9" "reg instance_A IR_DEC_REG1 = 0x8004"
  "reg instance_A IR_DEC_REG2 = 2" "reg instance_A IR_DEC_LDR_ACTIVE = 0"
  "reg instance_A IR_DEC_STATUS = 0"
  by (simp_all add: instance_A_def make_register_backup_eq meson_ir_init_def
      meson_ir_init_body_def meson_ir_set_mask_eq meson_ir_get_reg_eq meson_ir_alloc_def
      example_node_def mask_values field_values field_values_num offsets)

subsection \<open>The configuration sequence\<close>

text \<open>
  C5. \<open>meson_ir_init\<close> performs, in this order: the reset pulse (bit 0 of REG1 written
  set, then written clear); the raw decode mode (value 2) in bits 8:7 of REG1 on the
  Legacy variant or in bits 3:0 of REG2 on the Extended variant; bits 11:0 of REG0 set to
  9; bits 3:2 of REG1 set to 01; bit 1 of REG1 set exactly when the input is inverted;
  bit 15 of REG1 set; then one read each of STATUS and FRAME whose value is dropped. The
  first conjunct is the sequence of register accesses, the next six are the fields
  afterwards. After an attach on the Extended variant without inversion, bits 3:0 of
  REG2 read 0010, bit 15 of REG1 is set and bits 3:2 of REG1 are 01.
\<close>

theorem meson_ir_init_sequence:
  assumes "meson_ir_probe env node' globals = (ret, globals', Some attached)"
    and "\<not> compatible_meson6 node'" and "\<not> pulse_inverted node'"
  shows "trace (meson_ir_init node ir) = trace ir @
     (let a = reg ir IR_DEC_REG1;
          b = (a AND NOT 1) OR 1;
          c = b AND NOT 1;
          m = reg ir IR_DEC_REG2;
          d = (if compatible_meson6 node then (c AND NOT 0x180) OR 0x100 else c);
          z = reg ir IR_DEC_REG0;
          e = (d AND NOT 0xC) OR 4;
          f = (e AND NOT 2) OR (if pulse_inverted node then 2 else 0);
          g = (f AND NOT 0x8000) OR 0x8000
      in [Readl IR_DEC_REG1 a, Writel b IR_DEC_REG1,
          Readl IR_DEC_REG1 b, Writel c IR_DEC_REG1] @
         (if compatible_meson6 node
          then [Readl IR_DEC_REG1 c, Writel d IR_DEC_REG1]
          else [Readl IR_DEC_REG2 m, Writel ((m AND NOT 0xF) OR 2) IR_DEC_REG2]) @
         [Readl IR_DEC_REG0 z, Writel ((z AND NOT 0xFFF) OR 9) IR_DEC_REG0,
          Readl IR_DEC_REG1 d, Writel e IR_DEC_REG1,
          Readl IR_DEC_REG1 e, Writel f IR_DEC_REG1,
          Readl IR_DEC_REG1 f, Writel g IR_DEC_REG1,
          Readl IR_DEC_STATUS (reg ir IR_DEC_STATUS),
          Readl IR_DEC_FRAME (reg ir IR_DEC_FRAME)])
   \<and> \<not> bit (reg (meson_ir_init node ir) IR_DEC_REG1) 0
   \<and> (if compatible_meson6 node
      then reg (meson_ir_init node ir) IR_DEC_REG1 AND 0x180 = 0x100
      else reg (meson_ir_init node ir) IR_DEC_REG2 AND 0xF = 2)
   \<and> reg (meson_ir_init node ir) IR_DEC_REG0 AND 0xFFF = 9
   \<and> reg (meson_ir_init node ir) IR_DEC_REG1 AND 0xC = 4
   \<and> bit (reg (meson_ir_init node ir) IR_DEC_REG1) 1 = pulse_inverted node
   \<and> bit (reg (meson_ir_init node ir) IR_DEC_REG1) 15
   \<and> reg attached IR_DEC_REG2 AND 0xF = 2
   \<and> bit (reg attached IR_DEC_REG1) 15
   \<and> \<not> bit (reg attached IR_DEC_REG1) 3 \<and> bit (reg attached IR_DEC_REG1) 2"
proof -
  obtain regs where att: "(globals', attached) =
      make_register_backup (meson_ir_init node' (meson_ir_alloc env node' regs))"
    using probe_success [OF assms(1)] by blast
  then have regs: "reg attached = reg (meson_ir_init node' (meson_ir_alloc env node' regs))"
    by (simp add: make_register_backup_eq)
  have mode: "reg attached IR_DEC_REG2 AND 0xF = 2"
    using init_mode_field [of node' "meson_ir_alloc env node' regs"] assms(2)
    by (simp add: regs mode_field_def mask_values)
  have m: "(if compatible_meson6 node
      then reg (meson_ir_init node ir) IR_DEC_REG1 AND 0x180 = 0x100
      else reg (meson_ir_init node ir) IR_DEC_REG2 AND 0xF = 2)"
    using init_mode_field [of node ir]
    by (cases "compatible_meson6 node") (simp_all add: mode_field_def mask_values)
  have r: "reg (meson_ir_init node ir) IR_DEC_REG0 AND 0xFFF = 9"
    using init_rate_field [of node ir] by (simp add: rate_field_def mask_values)
  have i: "reg (meson_ir_init node ir) IR_DEC_REG1 AND 0xC = 4"
    using init_irqsel_field [of node ir] by (simp add: irqsel_field_def mask_values)
  show ?thesis
    using init_trace [of node ir] mode m r i by (simp only: init_bits regs simp_thms)
qed

theorem meson_ir_init_sequence_witness:
  "meson_ir_probe example_env example_node example_globals = (0, snapshot_A, Some instance_A)
   \<and> \<not> compatible_meson6 example_node \<and> \<not> pulse_inverted example_node
   \<and> reg instance_A IR_DEC_REG2 AND 0xF = 2
   \<and> bit (reg instance_A IR_DEC_REG1) 15
   \<and> \<not> bit (reg instance_A IR_DEC_REG1) 3 \<and> bit (reg instance_A IR_DEC_REG1) 2
   \<and> reg instance_A IR_DEC_REG1 = 0x8004"
  using meson_ir_init_sequence [OF probe_example example_node_variant, of example_node instance_A]
  by (simp add: probe_example instance_A_regs example_node_variant)

subsection \<open>The descriptor handed to rc-core\<close>

text \<open>
  C10. On every successful attach the descriptor has \<open>rx_resolution\<close> 10, \<open>min_timeout\<close> 1,
  \<open>timeout\<close> 125000 and \<open>max_timeout\<close> 1250000 (microseconds), so the default timeout
  lies between the two bounds.
\<close>

theorem probe_rc_descriptor:
  assumes "meson_ir_probe env node globals = (ret, globals', Some ir)"
  shows "ret = 0
    \<and> rx_resolution (rc ir) = 10 \<and> min_timeout (rc ir) = 1
    \<and> timeout (rc ir) = 125000 \<and> max_timeout (rc ir) = 1250000
    \<and> min_timeout (rc ir) \<le> timeout (rc ir) \<and> timeout (rc ir) \<le> max_timeout (rc ir)"
proof -
  obtain regs where att: "(globals', ir) =
      make_register_backup (meson_ir_init node (meson_ir_alloc env node regs))" and "ret = 0"
    using probe_success [OF assms] by blast
  then have "rc ir = rc (meson_ir_alloc env node regs)"
    by (simp add: make_register_backup_eq init_frame)
  then show ?thesis
    using \<open>ret = 0\<close> by (simp add: meson_ir_alloc_def field_values MESON_TRATE_def)
qed

theorem probe_rc_descriptor_witness:
  "meson_ir_probe example_env example_node example_globals = (0, snapshot_A, Some instance_A)
   \<and> rx_resolution (rc instance_A) = 10 \<and> min_timeout (rc instance_A) = 1
   \<and> timeout (rc instance_A) = 125000 \<and> max_timeout (rc instance_A) = 1250000"
  using probe_rc_descriptor [OF probe_example] by (simp add: probe_example)


subsection \<open>The interrupt handler\<close>

lemmas stmt_simps = exec_def spin_lock_def spin_unlock_def spin_lock_irqsave_def
  spin_unlock_irqrestore_def log_def meson_ir_set_mask_eq meson_ir_get_reg_eq

lemma status_level: "((v :: u32) AND STATUS_IR_DEC_IN \<noteq> 0) = bit v 8"
  using bit_iff_and_push_bit_not_eq_0 [of v 8] by (simp add: mask_values)

text \<open>
  C6. For every interrupt handled with the lock free at entry, \<open>meson_ir_irq\<close> returns
  \<open>IRQ_HANDLED\<close>; the level of the edge event it stores is bit 8 of STATUS as read during
  that handling; the timer is re-armed for \<open>jiffies\<close> plus the configured timeout converted
  to jiffies; and \<open>ir_raw_event_handle\<close> is called, all between taking and releasing the
  lock.
\<close>

theorem meson_ir_irq_edge:
  assumes "\<not> lock ir"
  shows "\<exists>ir'. meson_ir_irq usecs_to_jiffies jiffies ir = Some (IRQ_HANDLED, ir')
    \<and> trace ir' = trace ir @
        [Spin_lock,
         Readl IR_DEC_STATUS (reg ir IR_DEC_STATUS),
         Raw_event_store_edge (bit (reg ir IR_DEC_STATUS) 8),
         Mod_timer (jiffies + usecs_to_jiffies (timeout (rc ir))),
         Raw_event_handle,
         Spin_unlock]
    \<and> flush_timer_expires ir' = Some (jiffies + usecs_to_jiffies (timeout (rc ir)))
    \<and> reg ir' = reg ir \<and> rc ir' = rc ir \<and> irq ir' = irq ir \<and> \<not> lock ir'"
  using assms
  by (simp add: meson_ir_irq_def meson_ir_irq_stmts_def stmt_simps readl_def
      ir_raw_event_store_edge_def ir_raw_event_handle_def mod_timer_def status_level)

lemma example_ir_simps:
  "lock example_ir = False" "trace example_ir = []" "flush_timer_expires example_ir = None"
  "reg example_ir = reg instance_A" "rc example_ir = rc instance_A"
  by (simp_all add: example_ir_def instance_A_def make_register_backup_eq init_frame
      meson_ir_alloc_def)

lemma instance_A_timeout: "timeout (rc instance_A) = 125000"
  by (simp add: instance_A_def make_register_backup_eq init_frame meson_ir_alloc_def
      field_values)

theorem meson_ir_irq_edge_witness:
  "\<not> lock example_ir
   \<and> (\<exists>ir'. meson_ir_irq usecs_to_jiffies_hz100 1000 example_ir = Some (IRQ_HANDLED, ir')
        \<and> trace ir' = [Spin_lock, Readl IR_DEC_STATUS 0, Raw_event_store_edge False,
                       Mod_timer 1013, Raw_event_handle, Spin_unlock]
        \<and> flush_timer_expires ir' = Some 1013)"
  using meson_ir_irq_edge [of example_ir usecs_to_jiffies_hz100 1000]
  by (auto simp add: example_ir_simps instance_A_regs instance_A_timeout usecs_to_jiffies_hz100_def)

subsection \<open>Shutdown\<close>

lemma shutdown_eq:
  assumes "\<not> lock ir"
  shows "meson_ir_shutdown node ir = Some
     (if compatible_meson6 node
      then ir\<lparr>reg := (reg ir)
                (IR_DEC_REG1 := (reg ir IR_DEC_REG1 AND NOT REG1_MODE_MASK)
                                  OR (push_bit REG1_MODE_SHIFT DECODE_MODE_NEC AND REG1_MODE_MASK),
                 IR_DEC_REG0 := (reg ir IR_DEC_REG0 AND NOT REG0_RATE_MASK)
                                  OR (0x13 AND REG0_RATE_MASK)),
              lock := False,
              trace := trace ir @
                [Spin_lock,
                 Readl IR_DEC_REG1 (reg ir IR_DEC_REG1),
                 Writel ((reg ir IR_DEC_REG1 AND NOT REG1_MODE_MASK)
                           OR (push_bit REG1_MODE_SHIFT DECODE_MODE_NEC AND REG1_MODE_MASK))
                   IR_DEC_REG1,
                 Readl IR_DEC_REG0 (reg ir IR_DEC_REG0),
                 Writel ((reg ir IR_DEC_REG0 AND NOT REG0_RATE_MASK) OR (0x13 AND REG0_RATE_MASK))
                   IR_DEC_REG0,
                 Spin_unlock]\<rparr>
      else ir\<lparr>reg := (reg ir)
                (IR_DEC_REG2 := (reg ir IR_DEC_REG2 AND NOT REG2_MODE_MASK)
                                  OR (push_bit REG2_MODE_SHIFT DECODE_MODE_NEC AND REG2_MODE_MASK),
                 IR_DEC_REG0 := (reg ir IR_DEC_REG0 AND NOT REG0_RATE_MASK)
                                  OR (0x13 AND REG0_RATE_MASK)),
              lock := False,
              trace := trace ir @
                [Spin_lock,
                 Readl IR_DEC_REG2 (reg ir IR_DEC_REG2),
                 Writel ((reg ir IR_DEC_REG2 AND NOT REG2_MODE_MASK)
                           OR (push_bit REG2_MODE_SHIFT DECODE_MODE_NEC AND REG2_MODE_MASK))
                   IR_DEC_REG2,
                 Readl IR_DEC_REG0 (reg ir IR_DEC_REG0),
                 Writel ((reg ir IR_DEC_REG0 AND NOT REG0_RATE_MASK) OR (0x13 AND REG0_RATE_MASK))
                   IR_DEC_REG0,
                 Spin_unlock]\<rparr>)"
  using assms
  by (simp add: meson_ir_shutdown_def meson_ir_shutdown_stmts_def stmt_simps offsets)

text \<open>
  C7. With the lock free at entry, \<open>meson_ir_shutdown\<close> returns; between taking and
  releasing the lock it clears the variant's mode field (bits 8:7 of REG1 on the Legacy
  variant, bits 3:0 of REG2 on the Extended variant: hardware NEC decoding) and sets bits
  11:0 of REG0 to 0x13 whatever rate was configured; the descriptor, the timer and the
  interrupt line of the instance are as before.
\<close>

theorem meson_ir_shutdown_low_power:
  assumes "\<not> lock ir"
  shows "\<exists>ir'. meson_ir_shutdown node ir = Some ir'
    \<and> (if compatible_meson6 node then reg ir' IR_DEC_REG1 AND 0x180 = 0
       else reg ir' IR_DEC_REG2 AND 0xF = 0)
    \<and> reg ir' IR_DEC_REG0 AND 0xFFF = 0x13
    \<and> trace ir' = trace ir @ [Spin_lock] @
        (if compatible_meson6 node
         then [Readl IR_DEC_REG1 (reg ir IR_DEC_REG1),
               Writel (reg ir IR_DEC_REG1 AND NOT 0x180) IR_DEC_REG1]
         else [Readl IR_DEC_REG2 (reg ir IR_DEC_REG2),
               Writel (reg ir IR_DEC_REG2 AND NOT 0xF) IR_DEC_REG2]) @
        [Readl IR_DEC_REG0 (reg ir IR_DEC_REG0),
         Writel ((reg ir IR_DEC_REG0 AND NOT 0xFFF) OR 0x13) IR_DEC_REG0,
         Spin_unlock]
    \<and> rc ir' = rc ir \<and> flush_timer_expires ir' = flush_timer_expires ir
    \<and> irq ir' = irq ir \<and> \<not> lock ir'"
proof -
  let ?ir' = "the (meson_ir_shutdown node ir)"
  have ret: "meson_ir_shutdown node ir = Some ?ir'"
    by (simp add: shutdown_eq [OF assms])
  have mode: "mode_field node (reg ?ir') = 0"
    by (simp add: shutdown_eq [OF assms] mode_field_def offsets and_not_self field_values)
  have rate: "rate_field (reg ?ir') = 0x13"
    by (simp add: shutdown_eq [OF assms] rate_field_def offsets and_not_or_inside)
      (simp_all add: mask_values)
  have rest: "trace ?ir' = trace ir @ [Spin_lock] @
        (if compatible_meson6 node
         then [Readl IR_DEC_REG1 (reg ir IR_DEC_REG1),
               Writel (reg ir IR_DEC_REG1 AND NOT 0x180) IR_DEC_REG1]
         else [Readl IR_DEC_REG2 (reg ir IR_DEC_REG2),
               Writel (reg ir IR_DEC_REG2 AND NOT 0xF) IR_DEC_REG2]) @
        [Readl IR_DEC_REG0 (reg ir IR_DEC_REG0),
         Writel ((reg ir IR_DEC_REG0 AND NOT 0xFFF) OR 0x13) IR_DEC_REG0,
         Spin_unlock]
    \<and> rc ?ir' = rc ir \<and> flush_timer_expires ?ir' = flush_timer_expires ir
    \<and> irq ?ir' = irq ir \<and> \<not> lock ?ir'"
    by (simp add: shutdown_eq [OF assms] field_values mask_values)
  have "(if compatible_meson6 node then reg ?ir' IR_DEC_REG1 AND 0x180 = 0
         else reg ?ir' IR_DEC_REG2 AND 0xF = 0)"
    using mode by (cases "compatible_meson6 node") (simp_all add: mode_field_def mask_values)
  moreover have "reg ?ir' IR_DEC_REG0 AND 0xFFF = 0x13"
    using rate by (simp add: rate_field_def mask_values)
  ultimately show ?thesis
    using ret rest by blast
qed

theorem meson_ir_shutdown_low_power_witness:
  "\<not> lock example_ir
   \<and> (\<exists>ir'. meson_ir_shutdown example_node example_ir = Some ir'
        \<and> reg ir' IR_DEC_REG2 = 0 \<and> reg ir' IR_DEC_REG0 = 0x13
        \<and> reg ir' IR_DEC_REG1 = 0x8004
        \<and> trace ir' = [Spin_lock, Readl IR_DEC_REG2 2, Writel 0 IR_DEC_REG2,
                       Readl IR_DEC_REG0 9, Writel 0x13 IR_DEC_REG0, Spin_unlock])"
  using meson_ir_shutdown_low_power [of example_ir example_node]
  by (auto simp add: example_ir_simps instance_A_regs [unfolded offsets] example_node_variant
      shutdown_eq field_values mask_values offsets)

text \<open>
  C9. \<open>meson_ir_shutdown\<close> changes only the variant's mode field and bits 11:0 of REG0: all
  other bits of all registers keep their value, in particular bit 15 of REG1, so a
  decoder that was enabled stays enabled.
\<close>

theorem meson_ir_shutdown_frame:
  assumes "\<not> lock ir"
  shows "\<exists>ir'. meson_ir_shutdown node ir = Some ir'
    \<and> (\<forall>r. reg ir' r AND NOT (shutdown_mask node r) = reg ir r AND NOT (shutdown_mask node r))
    \<and> bit (reg ir' IR_DEC_REG1) 15 = bit (reg ir IR_DEC_REG1) 15"
proof -
  obtain ir' where ir': "meson_ir_shutdown node ir = Some ir'"
    by (simp add: shutdown_eq [OF assms])
  have frame: "reg ir' r AND NOT (shutdown_mask node r) = reg ir r AND NOT (shutdown_mask node r)"
    for r
    using ir' by (auto simp: shutdown_eq [OF assms] shutdown_mask_def offsets and_not_or_outside
        split: if_splits)
  have "\<not> bit (shutdown_mask node IR_DEC_REG1) 15"
    by (simp add: shutdown_mask_def offsets mask_values)
  moreover have "bit (reg ir' IR_DEC_REG1 AND NOT (shutdown_mask node IR_DEC_REG1)) 15
      = bit (reg ir IR_DEC_REG1 AND NOT (shutdown_mask node IR_DEC_REG1)) 15"
    by (simp only: frame)
  ultimately have "bit (reg ir' IR_DEC_REG1) 15 = bit (reg ir IR_DEC_REG1) 15"
    by (simp add: bit_and_iff bit_not_iff)
  then show ?thesis using ir' frame by blast
qed

theorem meson_ir_shutdown_frame_witness:
  "\<not> lock example_ir
   \<and> (\<exists>ir'. meson_ir_shutdown example_node example_ir = Some ir'
        \<and> bit (reg ir' IR_DEC_REG1) 15 \<and> reg ir' IR_DEC_REG1 = reg example_ir IR_DEC_REG1
        \<and> reg ir' IR_DEC_LDR_ACTIVE = reg example_ir IR_DEC_LDR_ACTIVE)"
  using meson_ir_shutdown_frame [of example_ir example_node]
  by (auto simp add: example_ir_simps instance_A_regs [unfolded offsets] example_node_variant
      shutdown_eq offsets)

subsection \<open>The register backup\<close>

lemma probe_failure_keeps_globals:
  "meson_ir_probe env node globals = (ret, globals', None) \<Longrightarrow> globals' = globals"
  by (auto simp: meson_ir_probe_def Let_def split: if_splits sum.splits option.splits prod.splits)

text \<open>
  C1 (as amended). The register backup is one set of six module-level values shared by
  all instances. Every successful attach overwrites all six with the registers of the
  instance that attaches: after instance A attaches the backup holds A's values, and
  after instance B attaches next it holds B's values, which is what a later resume of A
  reads. (A failed attach leaves the backup as it was, \<open>probe_failure_keeps_globals\<close>;
  no other function of the driver assigns it.)
\<close>

theorem snapshot_is_last_attach:
  assumes "meson_ir_probe env_A node_A globals = (ret_A, globals_A, Some ir_A)"
    and "meson_ir_probe env_B node_B globals_A = (ret_B, globals_B, Some ir_B)"
  shows "globals_A =
      \<lparr>backup_IR_DEC_REG0 = reg ir_A IR_DEC_REG0, backup_IR_DEC_REG1 = reg ir_A IR_DEC_REG1,
       backup_IR_DEC_LDR_ACTIVE = reg ir_A IR_DEC_LDR_ACTIVE,
       backup_IR_DEC_LDR_IDLE = reg ir_A IR_DEC_LDR_IDLE,
       backup_IR_DEC_BIT_0 = reg ir_A IR_DEC_BIT_0,
       backup_IR_DEC_LDR_REPEAT = reg ir_A IR_DEC_LDR_REPEAT\<rparr>
    \<and> globals_B =
      \<lparr>backup_IR_DEC_REG0 = reg ir_B IR_DEC_REG0, backup_IR_DEC_REG1 = reg ir_B IR_DEC_REG1,
       backup_IR_DEC_LDR_ACTIVE = reg ir_B IR_DEC_LDR_ACTIVE,
       backup_IR_DEC_LDR_IDLE = reg ir_B IR_DEC_LDR_IDLE,
       backup_IR_DEC_BIT_0 = reg ir_B IR_DEC_BIT_0,
       backup_IR_DEC_LDR_REPEAT = reg ir_B IR_DEC_LDR_REPEAT\<rparr>"
proof -
  obtain regs_A where "(globals_A, ir_A) =
      make_register_backup (meson_ir_init node_A (meson_ir_alloc env_A node_A regs_A))"
    using probe_success [OF assms(1)] by blast
  moreover obtain regs_B where "(globals_B, ir_B) =
      make_register_backup (meson_ir_init node_B (meson_ir_alloc env_B node_B regs_B))"
    using probe_success [OF assms(2)] by blast
  ultimately show ?thesis
    by (simp add: make_register_backup_eq)
qed

lemma instance_B_regs:
  "reg instance_B IR_DEC_REG0 = 9" "reg instance_B IR_DEC_REG1 = 0x8004"
  "reg instance_B IR_DEC_LDR_ACTIVE = 5" "reg instance_B IR_DEC_LDR_IDLE = 0"
  "reg instance_B IR_DEC_BIT_0 = 0" "reg instance_B IR_DEC_LDR_REPEAT = 0"
  by (simp_all add: instance_B_def make_register_backup_eq meson_ir_init_def
      meson_ir_init_body_def meson_ir_set_mask_eq meson_ir_get_reg_eq meson_ir_alloc_def
      example_node_def mask_values field_values field_values_num offsets)

lemma instance_A_regs_more:
  "reg instance_A IR_DEC_LDR_IDLE = 0"
  "reg instance_A IR_DEC_BIT_0 = 0" "reg instance_A IR_DEC_LDR_REPEAT = 0"
  by (simp_all add: instance_A_def make_register_backup_eq meson_ir_init_def
      meson_ir_init_body_def meson_ir_set_mask_eq meson_ir_get_reg_eq meson_ir_alloc_def
      example_node_def mask_values field_values field_values_num offsets)

lemma snapshot_values:
  "snapshot_A =
      \<lparr>backup_IR_DEC_REG0 = 9, backup_IR_DEC_REG1 = 0x8004, backup_IR_DEC_LDR_ACTIVE = 0,
       backup_IR_DEC_LDR_IDLE = 0, backup_IR_DEC_BIT_0 = 0, backup_IR_DEC_LDR_REPEAT = 0\<rparr>"
  "snapshot_B =
      \<lparr>backup_IR_DEC_REG0 = 9, backup_IR_DEC_REG1 = 0x8004, backup_IR_DEC_LDR_ACTIVE = 5,
       backup_IR_DEC_LDR_IDLE = 0, backup_IR_DEC_BIT_0 = 0, backup_IR_DEC_LDR_REPEAT = 0\<rparr>"
  by (simp_all add: snapshot_A_def snapshot_B_def make_register_backup_eq meson_ir_init_def
      meson_ir_init_body_def meson_ir_set_mask_eq meson_ir_get_reg_eq meson_ir_alloc_def
      example_node_def mask_values field_values field_values_num offsets)

theorem snapshot_is_last_attach_witness:
  "meson_ir_probe example_env example_node example_globals = (0, snapshot_A, Some instance_A)
   \<and> meson_ir_probe example_env_B example_node snapshot_A = (0, snapshot_B, Some instance_B)
   \<and> snapshot_A =
      \<lparr>backup_IR_DEC_REG0 = 9, backup_IR_DEC_REG1 = 0x8004, backup_IR_DEC_LDR_ACTIVE = 0,
       backup_IR_DEC_LDR_IDLE = 0, backup_IR_DEC_BIT_0 = 0, backup_IR_DEC_LDR_REPEAT = 0\<rparr>
   \<and> snapshot_B =
      \<lparr>backup_IR_DEC_REG0 = 9, backup_IR_DEC_REG1 = 0x8004, backup_IR_DEC_LDR_ACTIVE = 5,
       backup_IR_DEC_LDR_IDLE = 0, backup_IR_DEC_BIT_0 = 0, backup_IR_DEC_LDR_REPEAT = 0\<rparr>"
  using snapshot_is_last_attach [OF probe_example probe_example_B]
  by (simp add: probe_example probe_example_B instance_A_regs instance_A_regs_more
      instance_B_regs)

lemma instance_A_lock: "\<not> lock instance_A"
  by (simp add: instance_A_def make_register_backup_eq init_frame meson_ir_alloc_def)

lemma resume_LDR_ACTIVE:
  assumes "\<not> lock ir"
  shows "resumed_reg amlogic_modify node globals ir IR_DEC_LDR_ACTIVE =
     Some ((reg ir IR_DEC_LDR_ACTIVE AND NOT (backup_IR_DEC_LDR_ACTIVE globals))
           OR (backup_IR_DEC_LDR_ACTIVE globals AND backup_IR_DEC_LDR_ACTIVE globals))"
  using assms
  by (simp add: resumed_reg_def meson_ir_resume_def meson_ir_resume_stmts_def exec_def
      spin_lock_def spin_unlock_def spin_lock_irqsave_def spin_unlock_irqrestore_def log_def
      enable_irq_def enable_irq_wake_def init_other meson_ir_set_mask_eq offsets
      del: and.idem)

text \<open>
  C1 as stated fails: receiver A attaches with LDR_ACTIVE reading 0, receiver B then
  attaches with LDR_ACTIVE reading 5. The backup that a resume of A reads holds 5 where
  A's attach captured 0, and the resume of A writes 5 into A's LDR_ACTIVE register.
\<close>

theorem snapshot_shared_counterexample:
  "meson_ir_probe example_env example_node example_globals = (0, snapshot_A, Some instance_A)
   \<and> meson_ir_probe example_env_B example_node snapshot_A = (0, snapshot_B, Some instance_B)
   \<and> backup_IR_DEC_LDR_ACTIVE snapshot_A = 0
   \<and> backup_IR_DEC_LDR_ACTIVE snapshot_B = 5
   \<and> snapshot_B \<noteq> snapshot_A
   \<and> resumed_reg True example_node snapshot_A instance_A IR_DEC_LDR_ACTIVE = Some 0
   \<and> resumed_reg True example_node snapshot_B instance_A IR_DEC_LDR_ACTIVE = Some 5"
proof -
  have a: "backup_IR_DEC_LDR_ACTIVE snapshot_A = 0"
    by (simp add: snapshot_values)
  have b: "backup_IR_DEC_LDR_ACTIVE snapshot_B = 5"
    by (simp add: snapshot_values)
  have "snapshot_B \<noteq> snapshot_A"
    using a b by auto
  then show ?thesis
    by (simp add: probe_example probe_example_B a b resume_LDR_ACTIVE [OF instance_A_lock]
        instance_A_regs)
qed


subsection \<open>Resume\<close>

lemma resume_fields:
  assumes "\<not> lock ir"
  shows "\<exists>ir2. meson_ir_resume amlogic_modify node globals ir = Some (0, ir2)
    \<and> mode_field node (reg ir2) = (if compatible_meson6 node then 0x100 else 2)
    \<and> rate_field (reg ir2) = 9
    \<and> irqsel_field (reg ir2) = 4
    \<and> pol_field (reg ir2) = (if pulse_inverted node then 2 else 0)
    \<and> rc ir2 = rc ir \<and> \<not> lock ir2"
  using assms
  by (simp add: meson_ir_resume_def meson_ir_resume_stmts_def exec_def spin_lock_def
      spin_unlock_def spin_lock_irqsave_def spin_unlock_irqrestore_def log_def enable_irq_def
      enable_irq_wake_def init_mode_field init_rate_field init_irqsel_field init_pol_field
      init_frame meson_ir_set_mask_eq)

lemma restore_bits: "(x AND NOT b) OR b = x OR (b :: u32)"
  by (rule bit_word_eqI) (auto simp: bit_simps)

lemma resume_eq:
  assumes "\<not> lock suspended"
  shows "meson_ir_resume amlogic_modify node globals suspended =
     (let restored = suspended\<lparr>
            lock := True,
            reg := (reg suspended)
              (IR_DEC_REG0 := reg suspended IR_DEC_REG0 OR backup_IR_DEC_REG0 globals,
               IR_DEC_REG1 := reg suspended IR_DEC_REG1 OR backup_IR_DEC_REG1 globals,
               IR_DEC_LDR_ACTIVE :=
                 reg suspended IR_DEC_LDR_ACTIVE OR backup_IR_DEC_LDR_ACTIVE globals,
               IR_DEC_LDR_IDLE := reg suspended IR_DEC_LDR_IDLE OR backup_IR_DEC_LDR_IDLE globals,
               IR_DEC_BIT_0 := reg suspended IR_DEC_BIT_0 OR backup_IR_DEC_BIT_0 globals,
               IR_DEC_LDR_REPEAT :=
                 reg suspended IR_DEC_LDR_REPEAT OR backup_IR_DEC_LDR_REPEAT globals),
            trace := trace suspended @
              [Spin_lock,
               Readl IR_DEC_REG0 (reg suspended IR_DEC_REG0),
               Writel (reg suspended IR_DEC_REG0 OR backup_IR_DEC_REG0 globals) IR_DEC_REG0,
               Readl IR_DEC_REG1 (reg suspended IR_DEC_REG1),
               Writel (reg suspended IR_DEC_REG1 OR backup_IR_DEC_REG1 globals) IR_DEC_REG1,
               Readl IR_DEC_LDR_ACTIVE (reg suspended IR_DEC_LDR_ACTIVE),
               Writel (reg suspended IR_DEC_LDR_ACTIVE OR backup_IR_DEC_LDR_ACTIVE globals)
                 IR_DEC_LDR_ACTIVE,
               Readl IR_DEC_LDR_IDLE (reg suspended IR_DEC_LDR_IDLE),
               Writel (reg suspended IR_DEC_LDR_IDLE OR backup_IR_DEC_LDR_IDLE globals)
                 IR_DEC_LDR_IDLE,
               Readl IR_DEC_BIT_0 (reg suspended IR_DEC_BIT_0),
               Writel (reg suspended IR_DEC_BIT_0 OR backup_IR_DEC_BIT_0 globals) IR_DEC_BIT_0,
               Readl IR_DEC_LDR_REPEAT (reg suspended IR_DEC_LDR_REPEAT),
               Writel (reg suspended IR_DEC_LDR_REPEAT OR backup_IR_DEC_LDR_REPEAT globals)
                 IR_DEC_LDR_REPEAT]\<rparr>;
          configured = meson_ir_init node restored
      in Some (0, configured\<lparr>lock := False,
                 trace := trace configured @
                   [if amlogic_modify then Enable_irq else Enable_irq_wake, Spin_unlock]\<rparr>))"
  using assms
  by (cases amlogic_modify)
    (simp_all add: meson_ir_resume_def meson_ir_resume_stmts_def stmt_simps enable_irq_def
      enable_irq_wake_def Let_def offsets restore_bits)

text \<open>
  C3. For every register state at the start and every register state the receiver is
  found in at resume: after \<open>meson_ir_init\<close> and the capture of the six registers,
  \<open>meson_ir_resume\<close> takes the lock, writes each of the six registers in the order REG0,
  REG1, LDR_ACTIVE, LDR_IDLE, BIT_0, LDR_REPEAT with the captured bits set and the other
  bits as found (the masked update with mask equal to value), runs \<open>meson_ir_init\<close> again
  in full for the same node, re-enables the interrupt and releases the lock; the mode,
  sample-rate, irq-select and polarity fields then hold what they held right after the
  first \<open>meson_ir_init\<close>. This holds in particular when the receiver is found as the
  attach left it (last conjunct).
\<close>

theorem resume_round_trip:
  assumes "\<not> lock ir" and "\<not> lock suspended"
  shows "let ir1 = meson_ir_init node ir;
             (globals, attached) = make_register_backup ir1;
             restored = suspended\<lparr>
               lock := True,
               reg := (reg suspended)
                 (IR_DEC_REG0 := reg suspended IR_DEC_REG0 OR reg ir1 IR_DEC_REG0,
                  IR_DEC_REG1 := reg suspended IR_DEC_REG1 OR reg ir1 IR_DEC_REG1,
                  IR_DEC_LDR_ACTIVE := reg suspended IR_DEC_LDR_ACTIVE OR reg ir1 IR_DEC_LDR_ACTIVE,
                  IR_DEC_LDR_IDLE := reg suspended IR_DEC_LDR_IDLE OR reg ir1 IR_DEC_LDR_IDLE,
                  IR_DEC_BIT_0 := reg suspended IR_DEC_BIT_0 OR reg ir1 IR_DEC_BIT_0,
                  IR_DEC_LDR_REPEAT := reg suspended IR_DEC_LDR_REPEAT OR reg ir1 IR_DEC_LDR_REPEAT),
               trace := trace suspended @
                 [Spin_lock,
                  Readl IR_DEC_REG0 (reg suspended IR_DEC_REG0),
                  Writel (reg suspended IR_DEC_REG0 OR reg ir1 IR_DEC_REG0) IR_DEC_REG0,
                  Readl IR_DEC_REG1 (reg suspended IR_DEC_REG1),
                  Writel (reg suspended IR_DEC_REG1 OR reg ir1 IR_DEC_REG1) IR_DEC_REG1,
                  Readl IR_DEC_LDR_ACTIVE (reg suspended IR_DEC_LDR_ACTIVE),
                  Writel (reg suspended IR_DEC_LDR_ACTIVE OR reg ir1 IR_DEC_LDR_ACTIVE)
                    IR_DEC_LDR_ACTIVE,
                  Readl IR_DEC_LDR_IDLE (reg suspended IR_DEC_LDR_IDLE),
                  Writel (reg suspended IR_DEC_LDR_IDLE OR reg ir1 IR_DEC_LDR_IDLE)
                    IR_DEC_LDR_IDLE,
                  Readl IR_DEC_BIT_0 (reg suspended IR_DEC_BIT_0),
                  Writel (reg suspended IR_DEC_BIT_0 OR reg ir1 IR_DEC_BIT_0) IR_DEC_BIT_0,
                  Readl IR_DEC_LDR_REPEAT (reg suspended IR_DEC_LDR_REPEAT),
                  Writel (reg suspended IR_DEC_LDR_REPEAT OR reg ir1 IR_DEC_LDR_REPEAT)
                    IR_DEC_LDR_REPEAT]\<rparr>;
             configured = meson_ir_init node restored
         in meson_ir_resume amlogic_modify node globals suspended =
              Some (0, configured\<lparr>lock := False,
                         trace := trace configured @
                           [if amlogic_modify then Enable_irq else Enable_irq_wake,
                            Spin_unlock]\<rparr>)
            \<and> mode_field node (reg configured) = mode_field node (reg ir1)
            \<and> rate_field (reg configured) = rate_field (reg ir1)
            \<and> irqsel_field (reg configured) = irqsel_field (reg ir1)
            \<and> pol_field (reg configured) = pol_field (reg ir1)
            \<and> (\<exists>ir2. meson_ir_resume amlogic_modify node globals attached = Some (0, ir2)
                  \<and> mode_field node (reg ir2) = mode_field node (reg ir1)
                  \<and> rate_field (reg ir2) = rate_field (reg ir1)
                  \<and> irqsel_field (reg ir2) = irqsel_field (reg ir1)
                  \<and> pol_field (reg ir2) = pol_field (reg ir1))"
proof -
  let ?ir1 = "meson_ir_init node ir"
  let ?globals = "fst (make_register_backup ?ir1)"
  let ?attached = "snd (make_register_backup ?ir1)"
  have "\<not> lock ?attached"
    using assms(1) by (simp add: make_register_backup_eq init_frame)
  from resume_fields [OF this, of amlogic_modify node ?globals]
  have attached: "\<exists>ir2. meson_ir_resume amlogic_modify node ?globals ?attached = Some (0, ir2)
      \<and> mode_field node (reg ir2) = mode_field node (reg ?ir1)
      \<and> rate_field (reg ir2) = rate_field (reg ?ir1)
      \<and> irqsel_field (reg ir2) = irqsel_field (reg ?ir1)
      \<and> pol_field (reg ir2) = pol_field (reg ?ir1)"
    by (auto simp: init_mode_field init_rate_field init_irqsel_field init_pol_field)
  show ?thesis
    using resume_eq [OF assms(2), of amlogic_modify node ?globals] attached
    by (simp add: Let_def split_def make_register_backup_eq init_mode_field init_rate_field
        init_irqsel_field init_pol_field)
qed

lemma example_suspended_simps:
  "\<not> lock example_suspended" "trace example_suspended = []"
  "reg example_suspended = (\<lambda>r. 0)(IR_DEC_REG0 := 0x13, IR_DEC_REG1 := 2, IR_DEC_LDR_ACTIVE := 0x20)"
  by (simp_all add: example_suspended_def instance_A_def make_register_backup_eq init_frame
      meson_ir_alloc_def)

lemma resume_example:
  "\<exists>ir2. meson_ir_resume True example_node snapshot_A example_suspended = Some (0, ir2)
     \<and> reg ir2 IR_DEC_REG0 = 9 \<and> reg ir2 IR_DEC_REG1 = 0x8004
     \<and> reg ir2 IR_DEC_REG2 = 2 \<and> reg ir2 IR_DEC_LDR_ACTIVE = 0x20
     \<and> trace ir2 =
        [Spin_lock,
         Readl IR_DEC_REG0 0x13, Writel 0x1B IR_DEC_REG0,
         Readl IR_DEC_REG1 2, Writel 0x8006 IR_DEC_REG1,
         Readl IR_DEC_LDR_ACTIVE 0x20, Writel 0x20 IR_DEC_LDR_ACTIVE,
         Readl IR_DEC_LDR_IDLE 0, Writel 0 IR_DEC_LDR_IDLE,
         Readl IR_DEC_BIT_0 0, Writel 0 IR_DEC_BIT_0,
         Readl IR_DEC_LDR_REPEAT 0, Writel 0 IR_DEC_LDR_REPEAT,
         Readl IR_DEC_REG1 0x8006, Writel 0x8007 IR_DEC_REG1,
         Readl IR_DEC_REG1 0x8007, Writel 0x8006 IR_DEC_REG1,
         Readl IR_DEC_REG2 0, Writel 2 IR_DEC_REG2,
         Readl IR_DEC_REG0 0x1B, Writel 9 IR_DEC_REG0,
         Readl IR_DEC_REG1 0x8006, Writel 0x8006 IR_DEC_REG1,
         Readl IR_DEC_REG1 0x8006, Writel 0x8004 IR_DEC_REG1,
         Readl IR_DEC_REG1 0x8004, Writel 0x8004 IR_DEC_REG1,
         Readl IR_DEC_STATUS 0, Readl IR_DEC_FRAME 0,
         Enable_irq, Spin_unlock]"
  by (simp add: resume_eq [OF example_suspended_simps(1)] Let_def snapshot_values
      example_suspended_simps init_trace init_REG0 [unfolded offsets]
      init_REG1 [unfolded offsets] init_REG2 [unfolded offsets] init_other
      example_node_variant mask_values field_values field_values_num offsets)

theorem resume_round_trip_witness:
  "\<not> lock (meson_ir_alloc example_env example_node (\<lambda>r. 0)) \<and> \<not> lock example_suspended
   \<and> reg example_suspended IR_DEC_REG0 = 0x13 \<and> reg example_suspended IR_DEC_REG1 = 2
   \<and> reg example_suspended IR_DEC_REG2 = 0
   \<and> (\<exists>ir2. meson_ir_resume True example_node snapshot_A example_suspended = Some (0, ir2)
        \<and> reg ir2 IR_DEC_REG0 = 9 \<and> reg ir2 IR_DEC_REG1 = 0x8004
        \<and> reg ir2 IR_DEC_REG2 = 2 \<and> reg ir2 IR_DEC_LDR_ACTIVE = 0x20
        \<and> mode_field example_node (reg ir2) = mode_field example_node (reg instance_A)
        \<and> rate_field (reg ir2) = rate_field (reg instance_A)
        \<and> irqsel_field (reg ir2) = irqsel_field (reg instance_A)
        \<and> pol_field (reg ir2) = pol_field (reg instance_A))"
proof -
  let ?ir = "meson_ir_alloc example_env example_node (\<lambda>r. 0)"
  have l: "\<not> lock ?ir"
    by (simp add: meson_ir_alloc_def)
  have regs: "reg instance_A = reg (meson_ir_init example_node ?ir)"
    by (simp add: instance_A_def make_register_backup_eq)
  obtain ir2 where ir2: "meson_ir_resume True example_node snapshot_A example_suspended = Some (0, ir2)"
    "reg ir2 IR_DEC_REG0 = 9" "reg ir2 IR_DEC_REG1 = 0x8004"
    "reg ir2 IR_DEC_REG2 = 2" "reg ir2 IR_DEC_LDR_ACTIVE = 0x20"
    using resume_example by blast
  from resume_round_trip [OF l example_suspended_simps(1), of example_node True]
  have "mode_field example_node (reg ir2) = mode_field example_node (reg instance_A)
      \<and> rate_field (reg ir2) = rate_field (reg instance_A)
      \<and> irqsel_field (reg ir2) = irqsel_field (reg instance_A)
      \<and> pol_field (reg ir2) = pol_field (reg instance_A)"
    using ir2(1) by (auto simp: Let_def split_def snapshot_A_def regs)
  then show ?thesis
    using l ir2 by (auto simp: example_suspended_simps offsets)
qed


subsection \<open>The timer callback and the lock\<close>

lemma flush_timer_eq:
  "flush_timer ir = Some (ir\<lparr>trace := trace ir @
     [Raw_event_store \<lparr>duration = timeout (rc ir), pulse = False, timeout_ev = True\<rparr>,
      Raw_event_handle]\<rparr>)"
  by (simp add: flush_timer_def flush_timer_stmts_def exec_def ir_raw_event_store_def
      ir_raw_event_handle_def log_def)

lemma irq_sink_calls_locked:
  "sink_calls_locked False
     [Spin_lock, Readl IR_DEC_STATUS v, Raw_event_store_edge level, Mod_timer e,
      Raw_event_handle, Spin_unlock]"
  by simp

lemmas irq_simps = meson_ir_irq_stmts_def stmt_simps readl_def ir_raw_event_store_edge_def
  ir_raw_event_handle_def mod_timer_def status_level

text \<open>
  C2 does not hold on the timeout path. \<open>meson_ir_irq\<close> calls the decoder sink between
  \<open>spin_lock\<close> and \<open>spin_unlock\<close> (\<open>irq_sink_calls_locked\<close>), but \<open>flush_timer\<close> calls
  \<open>ir_raw_event_store\<close> and \<open>ir_raw_event_handle\<close> without taking the lock. On the attached
  receiver the callback stores the timeout event with the lock not held; and when the
  timer expires on one CPU while the interrupt handler on another CPU is inside its
  critical section, the timeout event reaches the sink between the handler's edge event
  and the handler's \<open>ir_raw_event_handle\<close>.
\<close>

theorem flush_timer_sink_unlocked:
  "flush_timer example_ir = Some (example_ir\<lparr>trace :=
     [Raw_event_store \<lparr>duration = 125000, pulse = False, timeout_ev = True\<rparr>,
      Raw_event_handle]\<rparr>)
   \<and> \<not> sink_calls_locked False
       [Raw_event_store \<lparr>duration = 125000, pulse = False, timeout_ev = True\<rparr>,
        Raw_event_handle]
   \<and> map_option trace
       (interleave [CPU0, CPU0, CPU1, CPU1, CPU0, CPU0, CPU0]
          (meson_ir_irq_stmts usecs_to_jiffies_hz100 1000) flush_timer_stmts example_ir)
     = Some [Spin_lock, Readl IR_DEC_STATUS 0, Raw_event_store_edge False,
             Raw_event_store \<lparr>duration = 125000, pulse = False, timeout_ev = True\<rparr>,
             Raw_event_handle,
             Mod_timer 1013, Raw_event_handle, Spin_unlock]"
  by (simp add: flush_timer_eq example_ir_simps instance_A_timeout irq_simps
      flush_timer_stmts_def ir_raw_event_store_def instance_A_regs
      usecs_to_jiffies_hz100_def)

subsection \<open>Detach\<close>

lemma remove_eq:
  assumes "\<not> lock ir"
  shows "meson_ir_remove ir = Some (0,
     ir\<lparr>reg := (reg ir)(IR_DEC_REG1 := reg ir IR_DEC_REG1 AND NOT REG1_ENABLE),
        lock := False,
        flush_timer_expires := None,
        trace := trace ir @
          [Spin_lock,
           Readl IR_DEC_REG1 (reg ir IR_DEC_REG1),
           Writel (reg ir IR_DEC_REG1 AND NOT REG1_ENABLE) IR_DEC_REG1,
           Spin_unlock,
           Del_timer_sync]\<rparr>)"
  using assms
  by (simp add: meson_ir_remove_def meson_ir_remove_stmts_def stmt_simps del_timer_sync_def)

lemmas remove_simps = meson_ir_remove_stmts_def del_timer_sync_def

text \<open>
  C4. \<open>meson_ir_remove\<close> clears the enable bit between taking and releasing the lock and
  cancels the timer afterwards (\<open>remove_eq\<close>). That order does not keep the timer from
  firing after the detach has returned: an interrupt handler that was entered on another
  CPU before the detach began, and that gets the lock only after \<open>del_timer_sync\<close> has
  returned, arms the timer again. After both have returned the timer is pending for
  jiffy 1013, and when it fires the sink receives a timeout event.
\<close>

theorem remove_inflight_irq_rearms:
  "map_option trace
     (interleave [CPU0, CPU0, CPU0, CPU0, CPU1, CPU1, CPU1, CPU1, CPU1]
        meson_ir_remove_stmts (meson_ir_irq_stmts usecs_to_jiffies_hz100 1000) example_ir)
     = Some [Spin_lock, Readl IR_DEC_REG1 0x8004, Writel 4 IR_DEC_REG1, Spin_unlock,
             Del_timer_sync,
             Spin_lock, Readl IR_DEC_STATUS 0, Raw_event_store_edge False, Mod_timer 1013,
             Raw_event_handle, Spin_unlock]
   \<and> map_option flush_timer_expires
       (interleave [CPU0, CPU0, CPU0, CPU0, CPU1, CPU1, CPU1, CPU1, CPU1]
          meson_ir_remove_stmts (meson_ir_irq_stmts usecs_to_jiffies_hz100 1000) example_ir)
     = Some (Some 1013)
   \<and> map_option trace
       (Option.bind
          (interleave [CPU0, CPU0, CPU0, CPU0, CPU1, CPU1, CPU1, CPU1, CPU1]
             meson_ir_remove_stmts (meson_ir_irq_stmts usecs_to_jiffies_hz100 1000) example_ir)
          timer_fires)
     = Some [Spin_lock, Readl IR_DEC_REG1 0x8004, Writel 4 IR_DEC_REG1, Spin_unlock,
             Del_timer_sync,
             Spin_lock, Readl IR_DEC_STATUS 0, Raw_event_store_edge False, Mod_timer 1013,
             Raw_event_handle, Spin_unlock,
             Raw_event_store \<lparr>duration = 125000, pulse = False, timeout_ev = True\<rparr>,
             Raw_event_handle]"
  by (simp add: remove_simps irq_simps example_ir_simps instance_A_timeout instance_A_regs
      [unfolded offsets] offsets mask_values usecs_to_jiffies_hz100_def timer_fires_def
      flush_timer_eq)

lemma irq_then_remove_cancels:
  "map_option flush_timer_expires
     (interleave [CPU1, CPU1, CPU1, CPU1, CPU1, CPU0, CPU0, CPU0, CPU0]
        meson_ir_remove_stmts (meson_ir_irq_stmts usecs_to_jiffies_hz100 1000) example_ir)
     = Some None"
  by (simp add: remove_simps irq_simps example_ir_simps usecs_to_jiffies_hz100_def)

lemma remove_waits_for_irq:
  "interleave [CPU1, CPU0] meson_ir_remove_stmts
     (meson_ir_irq_stmts usecs_to_jiffies_hz100 1000) example_ir = None"
  by (simp add: remove_simps irq_simps example_ir_simps)


end
